theory Spec2Isabelle
  imports Main
begin

section \<open>The notebooks of pytae as data\<close>

text \<open>
  The repository holds two Jupyter notebooks that call the pytae library: a plotting
  demonstration (cells with two chained \<^verbatim>\<open>Plotter\<close> sessions) and a notebook of
  DataFrame accessor calls. Neither defines a function: every cell is a straight-line
  script. A cell is therefore embedded as the list of its statements, each statement
  as the expression tree Python parses it to, and every property below is computed
  from these trees.
\<close>

subsection \<open>Python expressions and statements\<close>

datatype pyexpr =
    Name string
  | Str string
  | IntLit int
  | FloatLit string
  | BoolLit bool
  | ListE "pyexpr list"
  | TupleE "pyexpr list"
  | DictE "(pyexpr \<times> pyexpr) list"
  | Attr pyexpr string
  | Subscript pyexpr pyexpr
  | Call pyexpr "pyexpr list" "(string \<times> pyexpr) list"

text \<open>
  \<open>FloatLit\<close> keeps a float literal as the source writes it. \<open>Call f args kwargs\<close> is
  \<^verbatim>\<open>f(args, k=v, ...)\<close>; a method call \<^verbatim>\<open>r.m(...)\<close> is \<open>Call (Attr r m) ...\<close>.
\<close>

type_synonym kwargs = "(string \<times> pyexpr) list"

text \<open>One link \<^verbatim>\<open>.m(args, k=v, ...)\<close> of a method chain.\<close>

type_synonym mcall = "string \<times> pyexpr list \<times> kwargs"

datatype stmt =
    Import string string
  | Assign string pyexpr
  | ExprStmt pyexpr
  | TryExcept "stmt list" "stmt list"
  | IfElse pyexpr "stmt list" "stmt list"
  | AssertStmt pyexpr
  | RaiseStmt pyexpr

text \<open>
  \<open>Import m a\<close> is \<^verbatim>\<open>import m as a\<close>. The last four forms are the ways a Python
  script handles or signals a failure; both notebooks are checked for them below.
\<close>

type_synonym cell = "stmt list"
type_synonym notebook = "cell list"

text \<open>
  The chain \<^verbatim>\<open>r.m1(...).m2(...)...\<close>: each call's receiver is the call before it.
\<close>

definition method_chain :: "pyexpr \<Rightarrow> mcall list \<Rightarrow> pyexpr" where
  "method_chain r links = foldl (\<lambda>e (m, a, kw). Call (Attr e m) a kw) r links"

subsection \<open>The plotting notebook\<close>

definition color :: pyexpr where
  "color = DictE
     [(Str ''cue'', Str ''blue''), (Str ''stim'', Str ''black''),
      (Str ''parietal'', Str ''red''), (Str ''frontal'', Str ''green''),
      (Str ''Male'', Str ''blue''), (Str ''Female'', Str ''pink''),
      (Str ''Dinner'', Str ''green''), (Str ''Lunch'', Str ''orange''),
      (Str ''Yes'', Str ''grey''), (Str ''No'', Str ''brown'')]"

definition sample :: "string \<Rightarrow> pyexpr" where
  "sample n = Subscript (Attr (Name ''pt'') ''sample_data'') (Str n)"

definition mosaic1 :: string where
  "mosaic1 = ''\<newline>ABC\<newline>DEF\<newline>GHI\<newline>JJJ\<newline>''"

definition mosaic2 :: string where
  "mosaic2 = ''\<newline>AB\<newline>CD\<newline>''"

definition chain1 :: "mcall list" where
  "chain1 =
   [(''data'', [Name ''fmri''], []),
    (''plot'', [],
       [(''x'', Str ''timepoint''), (''y'', Str ''signal''), (''by'', Str ''event''),
        (''aggfunc'', Str ''mean''), (''color'', Name ''color''), (''style'', Name ''style''),
        (''width'', Name ''width''), (''on'', Str ''A''), (''title'', Str ''region & event''),
        (''kind'', Str ''line'')]),
    (''plot'', [],
       [(''x'', Str ''timepoint''), (''y'', Str ''signal''), (''by'', Str ''region''),
        (''kind'', Str ''bar''), (''stacked'', BoolLit True), (''on'', Str ''A''),
        (''color'', Name ''color''), (''aggfunc'', Str ''mean'')]),
    (''data'', [Name ''tips''], []),
    (''plot'', [],
       [(''x'', Str ''day''), (''y'', Str ''total_bill''), (''by'', Str ''sex''),
        (''aggfunc'', Str ''mean''), (''on'', Str ''B^''), (''kind'', Str ''bar''),
        (''color'', Name ''color''), (''title'', Str ''avg bill by sex'')]),
    (''plot'', [],
       [(''x'', Str ''size''), (''y'', Str ''tip''), (''by'', Str ''smoker''),
        (''on'', Str ''C''), (''kind'', Str ''barh''), (''color'', Name ''color''),
        (''title'', Str ''avg tips by smoker status'')]),
    (''data'', [Name ''tips''], []),
    (''plot'', [],
       [(''kind'', Str ''scatter''), (''x'', Str ''total_bill''), (''y'', Str ''tip''),
        (''on'', Str ''D''), (''marker'', Str ''x''), (''s'', IntLit 5), (''c'', Str ''day''),
        (''cmap'', Str ''viridis''), (''title'', Str ''scatter plot demo'')]),
    (''data'', [Name ''tips''], []),
    (''plot'', [],
       [(''kind'', Str ''hexbin''), (''x'', Str ''total_bill''), (''y'', Str ''tip''),
        (''on'', Str ''E''), (''C'', Str ''size''),
        (''reduce_C_function'', Attr (Name ''np'') ''sum''), (''cmap'', Str ''viridis''),
        (''gridsize'', IntLit 20), (''title'', Str ''hexbin demo'')]),
    (''data'', [Name ''tips''], []),
    (''plot'', [],
       [(''kind'', Str ''pie''), (''y'', Str ''tip''), (''by'', Str ''time''),
        (''on'', Str ''F''), (''aggfunc'', Str ''mean''), (''autopct'', Str ''%1.1f%%''),
        (''colors'', Name ''color''),
        (''explode'', TupleE [IntLit 0, FloatLit ''0.05'']), (''title'', Str ''pie demo'')]),
    (''data'', [Name ''healthexp''], []),
    (''plot'', [],
       [(''kind'', Str ''area''), (''x'', Str ''Year''), (''y'', Str ''Spending_USD''),
        (''aggfunc'', Str ''mean''), (''on'', Str ''G^''), (''legend'', BoolLit False),
        (''by'', Str ''Country''), (''title'', Str ''area plot demo'')]),
    (''data'', [Name ''tips''], []),
    (''plot'', [],
       [(''kind'', Str ''kde''), (''on'', Str ''H^''), (''by'', Str ''day''),
        (''column'', Str ''tip''), (''title'', Str ''kde by days'')]),
    (''plot'', [],
       [(''kind'', Str ''kde''), (''column'', Str ''tip''), (''on'', Str ''H''),
        (''by'', Str ''sex'')]),
    (''plot'', [],
       [(''kind'', Str ''density''), (''on'', Str ''I''), (''by'', Str ''day''),
        (''column'', Str ''tip''), (''title'', Str ''density by days'')]),
    (''data'', [Name ''fmri''], []),
    (''plot'', [],
       [(''kind'', Str ''hist''), (''column'', Str ''signal''), (''by'', Str ''event''),
        (''on'', Str ''J''), (''bins'', IntLit 100)]),
    (''finalize'', [], [])]"

definition chain2 :: "mcall list" where
  "chain2 =
   [(''data'', [Name ''fmri''], []),
    (''plot'', [],
       [(''x'', Str ''timepoint''), (''y'', Str ''signal''), (''by'', Str ''event''),
        (''aggfunc'', Str ''mean''), (''color'', Name ''color''), (''style'', Name ''style''),
        (''width'', Name ''width''), (''on'', Str ''A''), (''title'', Str ''region & event''),
        (''kind'', Str ''line'')]),
    (''plot'', [],
       [(''x'', Str ''timepoint''), (''y'', Str ''signal''), (''by'', Str ''region''),
        (''kind'', Str ''bar''), (''stacked'', BoolLit True), (''on'', Str ''A''),
        (''color'', Name ''color''), (''aggfunc'', Str ''mean'')]),
    (''data'', [Name ''tips''], []),
    (''plot'', [],
       [(''x'', Str ''day''), (''y'', Str ''total_bill''), (''by'', Str ''sex''),
        (''aggfunc'', Str ''mean''), (''on'', Str ''B''), (''kind'', Str ''bar''),
        (''color'', Name ''color''), (''title'', Str ''avg bill by sex''),
        (''secondary_y'', BoolLit True)]),
    (''plot'', [],
       [(''x'', Str ''size''), (''y'', Str ''tip''), (''by'', Str ''smoker''),
        (''on'', Str ''C''), (''kind'', Str ''barh''), (''color'', Name ''color''),
        (''title'', Str ''avg tips by smoker status'')]),
    (''data'', [Name ''healthexp''], []),
    (''plot'', [],
       [(''kind'', Str ''area''), (''x'', Str ''Year''), (''y'', Str ''Spending_USD''),
        (''aggfunc'', Str ''mean''), (''on'', Str ''D''), (''by'', Str ''Country''),
        (''title'', Str ''area plot demo''), (''secondary_y'', BoolLit True),
        (''legend'', BoolLit False)]),
    (''finalize'', [], [])]"

definition plot_cell1 :: cell where
  "plot_cell1 =
   [Import ''numpy'' ''np'', Import ''pandas'' ''pd'', Import ''pytae'' ''pt'',
    Assign ''fmri'' (sample ''fmri''),
    Assign ''tips'' (sample ''tips''),
    Assign ''healthexp'' (sample ''healthexp''),
    Assign ''color'' color,
    Assign ''style'' (DictE [(Str ''cue'', Str ''-''), (Str ''stim'', Str ''--'')]),
    Assign ''width'' (DictE [(Str ''cue'', IntLit 3), (Str ''stim'', IntLit 1)]),
    Assign ''marker'' (DictE [(Str ''Male'', Str ''o''), (Str ''Female'', Str ''x'')]),
    Assign ''size'' (DictE [(Str ''Male'', IntLit 10), (Str ''Female'', IntLit 20)]),
    Assign ''mosaic'' (Str mosaic1),
    Assign ''k'' (Call (Attr (Name ''pt'') ''Plotter'') [Name ''mosaic'']
                    [(''figsize'', TupleE [IntLit 12, IntLit 12])]),
    ExprStmt (method_chain (Name ''k'') chain1),
    ExprStmt (Attr (Name ''k'') ''fig'')]"

definition plot_cell2 :: cell where
  "plot_cell2 =
   [Assign ''mosaic'' (Str mosaic2),
    Assign ''k'' (Call (Attr (Name ''pt'') ''Plotter'') [Name ''mosaic'']
                    [(''figsize'', TupleE [IntLit 8, IntLit 8])]),
    ExprStmt (method_chain (Name ''k'') chain2),
    ExprStmt (Attr (Name ''k'') ''fig'')]"

definition plot_cell3 :: cell where
  "plot_cell3 =
   [ExprStmt (Subscript (Subscript (Attr (Name ''k'') ''plot_kwargs_store'') (Str ''A''))
                (Str ''kind''))]"

definition plot_cell5 :: cell where
  "plot_cell5 = [Assign ''penguins'' (sample ''penguins''), ExprStmt (Name ''penguins'')]"

text \<open>Cells 4, 6 and 7 of the plotting notebook are empty.\<close>

definition plotter_notebook :: notebook where
  "plotter_notebook = [plot_cell1, plot_cell2, plot_cell3, [], plot_cell5, [], []]"

subsection \<open>The accessor notebook\<close>

definition print_call :: "pyexpr \<Rightarrow> stmt" where
  "print_call e = ExprStmt (Call (Name ''print'') [e] [])"

definition util_cells :: notebook where
  "util_cells =
   [[Import ''numpy'' ''np'', Import ''pandas'' ''pd'', Import ''pytae'' ''pt'',
     Import ''seaborn'' ''sns'',
     Assign ''penguins'' (Call (Attr (Name ''sns'') ''load_dataset'') [Str ''penguins''] [])],
    [ExprStmt (Call (Attr (Name ''penguins'') ''cols'') [] [])],
    [Assign ''df'' (Call (Attr (Name ''penguins'') ''group_x'') [] []),
     ExprStmt (Call (Attr (Name ''df'') ''head'') [] [])],
    [Assign ''df'' (Call (Attr (Name ''penguins'') ''handle_missing'') []
                      [(''fillna'', Str ''$'')]),
     ExprStmt (Call (Attr (Name ''df'') ''head'') [] [])],
    [ExprStmt (Call (Attr (Name ''df'') ''clip'') [] [])],
    [ExprStmt (Name ''penguins'')],
    [ExprStmt (Call (Attr (Name ''penguins'') ''select'') [Str ''spe|sex|^n|^bi''] [])],
    [ExprStmt (Call (Attr (Name ''penguins'') ''select'')
                 [ListE [Str ''species'', Str ''n'']] [])],
    [Assign ''df''
       (Call (Attr (Name ''pd'') ''DataFrame'')
          [method_chain (Name ''np'')
             [(''arange'', [IntLit 12], []), (''reshape'', [IntLit 3, IntLit 4], [])]]
          [(''columns'', ListE [Str ''A'', Str ''B_X'', Str ''B'', Str ''C''])]),
     print_call (Str ''original df''),
     print_call (Name ''df''),
     print_call (Str ''\<newline>select using a list''),
     print_call (Call (Attr (Name ''df'') ''select'') [ListE [Str ''A'', Str ''B_X'']] []),
     print_call (Str ''\<newline>select using a regex''),
     print_call (Call (Attr (Name ''df'') ''select'') [Str ''^B|C''] []),
     print_call (Str ''\<newline>select using a tuple of list and  regex''),
     print_call (Call (Attr (Name ''df'') ''select'')
                   [TupleE [ListE [Str ''A'', Str ''B_X''], Str ''^B|C'']] [])],
    []]"

definition source_notebooks :: "notebook list" where
  "source_notebooks = [plotter_notebook, util_cells]"

subsection \<open>Reading the calls off the expression trees\<close>

text \<open>
  \<open>unchain\<close> splits \<^verbatim>\<open>r.m1(...).m2(...)\<close> into its base \<open>r\<close> and its links, first call
  first; \<open>method_calls\<close> lists every method call of an expression with its receiver, in
  evaluation order (receiver, then arguments, then the call).
\<close>

fun unchain :: "pyexpr \<Rightarrow> pyexpr \<times> mcall list" where
  "unchain (Call (Attr r m) a kw) = (case unchain r of (b, ls) \<Rightarrow> (b, ls @ [(m, a, kw)]))"
| "unchain e = (e, [])"

fun method_calls :: "pyexpr \<Rightarrow> (pyexpr \<times> mcall) list" where
  "method_calls (Call (Attr r m) a kw) =
     method_calls r @ concat (map method_calls a) @ concat (map (\<lambda>p. method_calls (snd p)) kw)
       @ [(r, m, a, kw)]"
| "method_calls (Call f a kw) =
     method_calls f @ concat (map method_calls a) @ concat (map (\<lambda>p. method_calls (snd p)) kw)"
| "method_calls (Attr e x) = method_calls e"
| "method_calls (Subscript e i) = method_calls e @ method_calls i"
| "method_calls (ListE es) = concat (map method_calls es)"
| "method_calls (TupleE es) = concat (map method_calls es)"
| "method_calls (DictE kvs) =
     concat (map (\<lambda>p. method_calls (fst p) @ method_calls (snd p)) kvs)"
| "method_calls e = []"

fun stmt_exprs :: "stmt \<Rightarrow> pyexpr list" where
  "stmt_exprs (Import m a) = []"
| "stmt_exprs (Assign x e) = [e]"
| "stmt_exprs (ExprStmt e) = [e]"
| "stmt_exprs (TryExcept b h) = concat (map stmt_exprs b) @ concat (map stmt_exprs h)"
| "stmt_exprs (IfElse c t e) = c # concat (map stmt_exprs t) @ concat (map stmt_exprs e)"
| "stmt_exprs (AssertStmt e) = [e]"
| "stmt_exprs (RaiseStmt e) = [e]"

definition notebook_calls :: "notebook \<Rightarrow> (pyexpr \<times> mcall) list" where
  "notebook_calls nb = concat (map method_calls (concat (map stmt_exprs (concat nb))))"

definition source_calls :: "(pyexpr \<times> mcall) list" where
  "source_calls = concat (map notebook_calls source_notebooks)"

subsection \<open>Plotter sessions\<close>

text \<open>
  A notebook's cells run one after another in one interpreter, so a session is found by
  running the statements in order with the variable bindings: an assignment evaluates the
  names among a call's arguments (\<^verbatim>\<open>pt.Plotter(mosaic, ...)\<close> receives the string \<open>mosaic\<close>
  holds at that moment), and a chain whose base variable holds a \<^verbatim>\<open>pt.Plotter(...)\<close>
  object is one chained session. Only assignments and expression statements are run: the
  notebooks have no other statement but imports.
\<close>

type_synonym env = "(string \<times> pyexpr) list"

record plotter_session =
  ctor_args :: "pyexpr list"
  ctor_kwargs :: kwargs
  chain :: "mcall list"

fun lookup_name :: "env \<Rightarrow> pyexpr \<Rightarrow> pyexpr" where
  "lookup_name env (Name v) = (case map_of env v of Some e \<Rightarrow> e | None \<Rightarrow> Name v)"
| "lookup_name env e = e"

fun eval_args :: "env \<Rightarrow> pyexpr \<Rightarrow> pyexpr" where
  "eval_args env (Call f a kw) =
     Call f (map (lookup_name env) a) (map (\<lambda>p. (fst p, lookup_name env (snd p))) kw)"
| "eval_args env e = e"

definition plotter_ctor :: pyexpr where
  "plotter_ctor = Attr (Name ''pt'') ''Plotter''"

definition sessions_in :: "env \<Rightarrow> pyexpr \<Rightarrow> plotter_session list" where
  "sessions_in env e =
     (case unchain e of
        (Name v, ls) \<Rightarrow>
          (case map_of env v of
             Some (Call f a kw) \<Rightarrow>
               if f = plotter_ctor \<and> ls \<noteq> []
               then [\<lparr>ctor_args = a, ctor_kwargs = kw, chain = ls\<rparr>] else []
           | _ \<Rightarrow> [])
      | _ \<Rightarrow> [])"

fun exec_stmt :: "env \<times> plotter_session list \<Rightarrow> stmt \<Rightarrow> env \<times> plotter_session list" where
  "exec_stmt (env, ss) (Assign x e) = ((x, eval_args env e) # env, ss @ sessions_in env e)"
| "exec_stmt (env, ss) (ExprStmt e) = (env, ss @ sessions_in env e)"
| "exec_stmt st s = st"

definition sessions_of :: "notebook \<Rightarrow> plotter_session list" where
  "sessions_of nb = snd (foldl exec_stmt ([], []) (concat nb))"

definition source_sessions :: "plotter_session list" where
  "source_sessions = concat (map sessions_of source_notebooks)"

definition mosaic_of :: "plotter_session \<Rightarrow> string option" where
  "mosaic_of s = (case ctor_args s of Str m # rest \<Rightarrow> Some m | _ \<Rightarrow> None)"

definition plot_links :: "mcall list \<Rightarrow> kwargs list" where
  "plot_links ls = [kw. (m, a, kw) \<leftarrow> ls, m = ''plot'']"

definition source_plots :: "kwargs list" where
  "source_plots = [kw. (r, m, a, kw) \<leftarrow> source_calls, m = ''plot'']"

subsection \<open>The target cell of a plot call\<close>

definition letters :: string where
  "letters = ''ABCDEFGHIJKLMNOPQRSTUVWXYZabcdefghijklmnopqrstuvwxyz''"

definition on_value :: "kwargs \<Rightarrow> string option" where
  "on_value kw = (case map_of kw ''on'' of Some (Str s) \<Rightarrow> Some s | _ \<Rightarrow> None)"

text \<open>\<open>single_letter_label m s\<close>: \<open>s\<close> is one letter, and the letter stands in the mosaic \<open>m\<close>.\<close>

definition single_letter_label :: "string \<Rightarrow> string \<Rightarrow> bool" where
  "single_letter_label m s = (case s of [c] \<Rightarrow> c \<in> set letters \<and> c \<in> set m | _ \<Rightarrow> False)"

text \<open>
  The notebooks also write \<^verbatim>\<open>on='B^'\<close>: a cell letter followed by the marker \<^verbatim>\<open>^\<close>.
  \<open>cell_label\<close> is the letter part of such a value.
\<close>

definition cell_label :: "string \<Rightarrow> string" where
  "cell_label s = (if s \<noteq> [] \<and> last s = CHR ''^'' then butlast s else s)"

definition names_cell :: "string \<Rightarrow> string \<Rightarrow> bool" where
  "names_cell m s = single_letter_label m (cell_label s)"

definition on_satisfies :: "(string \<Rightarrow> string \<Rightarrow> bool) \<Rightarrow> plotter_session \<Rightarrow> kwargs \<Rightarrow> bool" where
  "on_satisfies P s kw =
     (case mosaic_of s of
        Some m \<Rightarrow> (case on_value kw of Some v \<Rightarrow> P m v | None \<Rightarrow> False)
      | None \<Rightarrow> False)"

subsection \<open>Plot kinds\<close>

definition plot_kinds :: "string list" where
  "plot_kinds = [''line'', ''bar'', ''barh'', ''scatter'', ''hexbin'', ''pie'', ''area'',
                 ''kde'', ''density'', ''hist'']"

definition kind_in_set :: "kwargs \<Rightarrow> bool" where
  "kind_in_set kw =
     (case map_of kw ''kind'' of None \<Rightarrow> True | Some v \<Rightarrow> v \<in> set (map Str plot_kinds))"

subsection \<open>DataFrame calls\<close>

text \<open>
  The variables the notebooks bind to DataFrames: \<open>fmri\<close>, \<open>tips\<close>, \<open>healthexp\<close> and
  \<open>penguins\<close> (from \<^verbatim>\<open>pt.sample_data[...]\<close> and \<^verbatim>\<open>sns.load_dataset\<close>) and \<open>df\<close>
  (from \<^verbatim>\<open>group_x\<close>, \<^verbatim>\<open>handle_missing\<close> and \<^verbatim>\<open>pd.DataFrame\<close>). A DataFrame call is a
  method call on one of them.
\<close>

definition frame_names :: "string list" where
  "frame_names = [''fmri'', ''tips'', ''healthexp'', ''penguins'', ''df'']"

definition frame_calls :: "(string \<times> mcall) list" where
  "frame_calls = [(v, m, a, kw). (r, m, a, kw) \<leftarrow> source_calls, v \<leftarrow> frame_names, r = Name v]"

definition frame_methods :: "string list" where
  "frame_methods = map (\<lambda>c. fst (snd c)) frame_calls"

definition exploratory_ops :: "string list" where
  "exploratory_ops = [''select'', ''group_x'', ''handle_missing'', ''clip'']"

subsection \<open>Error handling\<close>

fun handles_failure :: "stmt \<Rightarrow> bool" where
  "handles_failure (TryExcept b h) = True"
| "handles_failure (IfElse c t e) = True"
| "handles_failure (AssertStmt e) = True"
| "handles_failure (RaiseStmt e) = True"
| "handles_failure s = False"

subsection \<open>Two calls on one cell\<close>

text \<open>The chain of the \<open>i\<close>-th session of the source, counting from 0.\<close>

definition session_chain :: "nat \<Rightarrow> mcall list" where
  "session_chain i = chain (source_sessions ! i)"

text \<open>The plot calls of a chain whose target is the cell \<open>L\<close>.\<close>

definition plots_on :: "string \<Rightarrow> mcall list \<Rightarrow> kwargs list" where
  "plots_on L ls =
     filter (\<lambda>kw. map_option cell_label (on_value kw) = Some L) (plot_links ls)"

text \<open>
  The notebook reads the store as \<^verbatim>\<open>k.plot_kwargs_store['A']['kind']\<close>: a dictionary from
  cell labels to dictionaries from argument names to values. Such a store holds the
  arguments \<open>kw\<close> of a call for the label \<open>L\<close> when its entry for \<open>L\<close> maps each name of \<open>kw\<close>
  to the value the call passed.
\<close>

type_synonym kwargs_store = "string \<rightharpoonup> (string \<rightharpoonup> pyexpr)"

definition holds_kwargs :: "kwargs_store \<Rightarrow> string \<Rightarrow> kwargs \<Rightarrow> bool" where
  "holds_kwargs st L kw = (\<exists>entry. st L = Some entry \<and> (\<forall>p \<in> set kw. entry (fst p) = Some (snd p)))"

section \<open>The Plotter class, as the specification describes it\<close>

text \<open>
  Modelled from the spec: the state of a \<^verbatim>\<open>pytae.Plotter\<close> object, whose class is not among
  the repository's files. The spec gives it a mosaic-layout string and a size hint (the
  constructor's arguments), an active dataset (``switching the active dataset for
  subsequent plot calls''), a figure, and ``a dictionary-like store of recorded plot
  keyword arguments, keyed by mosaic cell label''. The figure is kept as the list of plots
  drawn: the cell, the dataset in effect and the keyword arguments of each.
\<close>

record plotter =
  layout :: string
  figsize :: pyexpr
  active :: "pyexpr option"
  fig :: "(string \<times> pyexpr option \<times> kwargs) list"
  plot_kwargs_store :: "string \<rightharpoonup> kwargs"
  finalized :: bool

text \<open>
  Modelled from the spec: the constructor \<^verbatim>\<open>Plotter(mosaic, figsize=...)\<close>, ``taking a
  mosaic-layout string and a size hint''. No dataset is active and nothing is drawn yet.
\<close>

definition Plotter :: "string \<Rightarrow> pyexpr \<Rightarrow> plotter" where
  "Plotter m sz =
     \<lparr>layout = m, figsize = sz, active = None, fig = [], plot_kwargs_store = Map.empty,
      finalized = False\<rparr>"

text \<open>
  Modelled from the spec: \<^verbatim>\<open>Plotter.data\<close>, ``a select data source operation switching the
  active dataset for subsequent plot calls''.
\<close>

definition data :: "plotter \<Rightarrow> pyexpr \<Rightarrow> plotter" where
  "data p d = p\<lparr>active := Some d\<rparr>"

text \<open>
  Modelled from the spec: \<^verbatim>\<open>Plotter.plot\<close>, which draws on ``a target mosaic cell label''
  from the active dataset and records its keyword arguments in the store under that label.
\<close>

definition plot :: "plotter \<Rightarrow> string \<Rightarrow> kwargs \<Rightarrow> plotter" where
  "plot p L kw =
     p\<lparr>fig := fig p @ [(L, active p, kw)],
       plot_kwargs_store := (plot_kwargs_store p)(L \<mapsto> kw)\<rparr>"

text \<open>
  Modelled from the spec: \<^verbatim>\<open>Plotter.finalize\<close>, ``a finalize operation that
  assembles/consolidates the figure''. What it does to the figure's legends is not
  described; the model only records that the session is finalized.
\<close>

definition finalize :: "plotter \<Rightarrow> kwargs \<Rightarrow> plotter" where
  "finalize p kw = p\<lparr>finalized := True\<rparr>"

text \<open>
  Modelled from the spec: one link of a chain applied to the object, by the name of its
  method. A \<^verbatim>\<open>plot\<close> call takes ``a target mosaic cell label'': its \<^verbatim>\<open>on\<close> value must name
  a cell of the object's own layout, and the cell is the letter of that value (the store
  is ``keyed by mosaic cell label''). The result is \<open>None\<close> for a call the description
  above does not cover: a method other than the three, a \<^verbatim>\<open>data\<close> call without exactly
  one positional argument, or a \<^verbatim>\<open>plot\<close> call whose \<^verbatim>\<open>on\<close> is missing, is not a string
  or names no cell of the layout.
\<close>

fun step :: "plotter \<Rightarrow> mcall \<Rightarrow> plotter option" where
  "step p (m, a, kw) =
     (if m = ''data'' then (case a of [d] \<Rightarrow> Some (data p d) | _ \<Rightarrow> None)
      else if m = ''plot'' then
        (case on_value kw of
           Some s \<Rightarrow> if names_cell (layout p) s then Some (plot p (cell_label s) kw) else None
         | None \<Rightarrow> None)
      else if m = ''finalize'' then Some (finalize p kw)
      else None)"

text \<open>
  Modelled from the spec: a chain applied link by link, each call to the object the call
  before it returned; the first link that is not covered ends the run with \<open>None\<close>.
\<close>

fun run :: "plotter \<Rightarrow> mcall list \<Rightarrow> plotter option" where
  "run p [] = Some p"
| "run p (c # cs) = (case step p c of None \<Rightarrow> None | Some q \<Rightarrow> run q cs)"

text \<open>
  Modelled from the spec: a session of the source run on the modelled object, from the
  constructor call \<^verbatim>\<open>pt.Plotter(mosaic, figsize=...)\<close> through the links of its chain.
\<close>

definition run_session :: "plotter_session \<Rightarrow> plotter option" where
  "run_session s =
     (case ctor_args s of
        [Str m] \<Rightarrow>
          (case map_of (ctor_kwargs s) ''figsize'' of
             Some sz \<Rightarrow> run (Plotter m sz) (chain s)
           | None \<Rightarrow> None)
      | _ \<Rightarrow> None)"

text \<open>
  The dataset named by the most recent \<^verbatim>\<open>data\<close> call among the links \<open>ls\<close>, read off the
  chain itself; \<open>None\<close> when there is none.
\<close>

definition data_args :: "mcall list \<Rightarrow> pyexpr list" where
  "data_args ls = [d. (m, a, kw) \<leftarrow> ls, m = ''data'', d \<leftarrow> (case a of [d] \<Rightarrow> [d] | _ \<Rightarrow> [])]"

definition last_data :: "mcall list \<Rightarrow> pyexpr option" where
  "last_data ls = (if data_args ls = [] then None else Some (last (data_args ls)))"


section \<open>Evaluating the notebooks\<close>

lemma method_chain_snoc:
  "method_chain r (ls @ [(m, a, kw)]) = Call (Attr (method_chain r ls) m) a kw"
  by (simp add: method_chain_def)

lemma unchain_method_chain: "unchain (method_chain (Name x) ls) = (Name x, ls)"
proof (induction ls rule: rev_induct)
  case Nil
  show ?case by (simp add: method_chain_def)
next
  case (snoc l ls)
  obtain m a kw where l: "l = (m, a, kw)"
    by (cases l) auto
  show ?case
    by (simp add: l method_chain_snoc snoc.IH)
qed

lemma chain1_nonempty: "chain1 \<noteq> []"
  by (simp add: chain1_def)

lemma chain2_nonempty: "chain2 \<noteq> []"
  by (simp add: chain2_def)

lemmas cell_defs = plotter_notebook_def plot_cell1_def plot_cell2_def plot_cell3_def
  plot_cell5_def util_cells_def print_call_def sample_def color_def

lemma sessions_of_plotter_notebook:
  "sessions_of plotter_notebook =
     [\<lparr>ctor_args = [Str mosaic1],
       ctor_kwargs = [(''figsize'', TupleE [IntLit 12, IntLit 12])], chain = chain1\<rparr>,
      \<lparr>ctor_args = [Str mosaic2],
       ctor_kwargs = [(''figsize'', TupleE [IntLit 8, IntLit 8])], chain = chain2\<rparr>]"
  by (simp add: sessions_of_def cell_defs sessions_in_def unchain_method_chain plotter_ctor_def
      chain1_nonempty chain2_nonempty)

lemma sessions_of_util_cells: "sessions_of util_cells = []"
  by (simp add: sessions_of_def cell_defs sessions_in_def method_chain_def plotter_ctor_def)

text \<open>
  The two sessions of the source: the first cell's, on the 4-by-3 mosaic, and the second
  cell's, on the 2-by-2 mosaic. The accessor notebook has none.
\<close>

lemma source_sessions_eq:
  "source_sessions =
     [\<lparr>ctor_args = [Str mosaic1],
       ctor_kwargs = [(''figsize'', TupleE [IntLit 12, IntLit 12])], chain = chain1\<rparr>,
      \<lparr>ctor_args = [Str mosaic2],
       ctor_kwargs = [(''figsize'', TupleE [IntLit 8, IntLit 8])], chain = chain2\<rparr>]"
  by (simp add: source_sessions_def source_notebooks_def sessions_of_plotter_notebook
      sessions_of_util_cells)

text \<open>Every \<^verbatim>\<open>plot\<close> call of the source is a link of one of the two chains.\<close>

lemma source_plots_eq: "source_plots = plot_links chain1 @ plot_links chain2"
  by (simp add: source_plots_def source_calls_def source_notebooks_def notebook_calls_def
      cell_defs method_chain_def chain1_def chain2_def plot_links_def)

lemma frame_methods_eq:
  "frame_methods =
     [''cols'', ''group_x'', ''head'', ''handle_missing'', ''head'', ''clip'',
      ''select'', ''select'', ''select'', ''select'', ''select'']"
  by (simp add: frame_methods_def frame_calls_def source_calls_def source_notebooks_def
      notebook_calls_def cell_defs method_chain_def chain1_def chain2_def frame_names_def)

lemmas on_defs = on_satisfies_def mosaic_of_def on_value_def single_letter_label_def
  names_cell_def cell_label_def letters_def mosaic1_def mosaic2_def

section \<open>The target cell of every plot call\<close>

text \<open>
  Claim C1, as the specification states it: for every \<^verbatim>\<open>plot\<close> call, the value passed to
  \<^verbatim>\<open>on\<close> is a single-letter cell label that appears in the mosaic string of its session.
  It fails: the first session passes \<^verbatim>\<open>on='B^'\<close>, \<^verbatim>\<open>on='G^'\<close> and \<^verbatim>\<open>on='H^'\<close>, which
  are two characters long.
\<close>

theorem on_single_letter_counterexample:
  "\<not> (\<forall>s \<in> set source_sessions. \<forall>kw \<in> set (plot_links (chain s)).
        on_satisfies single_letter_label s kw)"
  by (simp add: source_sessions_eq plot_links_def chain1_def on_defs)

text \<open>
  Claim C1, amended: for every \<^verbatim>\<open>plot\<close> call, the value passed to \<^verbatim>\<open>on\<close> is a single
  letter that appears in the mosaic string of its session, optionally followed by the
  marker \<^verbatim>\<open>^\<close>.
\<close>

theorem on_names_cell:
  "\<forall>s \<in> set source_sessions. \<forall>kw \<in> set (plot_links (chain s)). on_satisfies names_cell s kw"
  by (simp add: source_sessions_eq plot_links_def chain1_def chain2_def on_defs)

theorem on_names_cell_witness:
  "on_value (plot_links (chain (source_sessions ! 0)) ! 2) = Some ''B^'' \<and>
   on_satisfies names_cell (source_sessions ! 0) (plot_links (chain (source_sessions ! 0)) ! 2)"
proof -
  have s: "source_sessions ! 0 \<in> set source_sessions"
    by (simp add: source_sessions_eq)
  have k: "plot_links (chain (source_sessions ! 0)) ! 2
             \<in> set (plot_links (chain (source_sessions ! 0)))"
    by (simp add: source_sessions_eq plot_links_def chain1_def)
  have v: "on_value (plot_links (chain (source_sessions ! 0)) ! 2) = Some ''B^''"
    by (simp add: source_sessions_eq plot_links_def chain1_def on_value_def)
  from on_names_cell s k v show ?thesis by blast
qed

section \<open>The DataFrame calls of the source\<close>

text \<open>
  Claim C2, as the specification states it: every DataFrame call in the source is one of
  \<^verbatim>\<open>select\<close>, \<^verbatim>\<open>group_x\<close>, \<^verbatim>\<open>handle_missing\<close> and \<^verbatim>\<open>clip\<close>. It fails: the accessor
  notebook also calls \<^verbatim>\<open>penguins.cols()\<close> and \<^verbatim>\<open>df.head()\<close>.
\<close>

theorem frame_methods_counterexample:
  "\<not> (\<forall>m \<in> set frame_methods. m \<in> set exploratory_ops)"
  by (simp add: frame_methods_eq exploratory_ops_def)

text \<open>
  Claim C2, amended: the methods called on a DataFrame in the source are exactly
  \<^verbatim>\<open>cols\<close>, \<^verbatim>\<open>select\<close>, \<^verbatim>\<open>group_x\<close>, \<^verbatim>\<open>handle_missing\<close>, \<^verbatim>\<open>clip\<close> and pandas' own
  \<^verbatim>\<open>head\<close>: no other is invoked, and each of the six is.
\<close>

theorem frame_methods_set:
  "set frame_methods = set (''cols'' # ''head'' # exploratory_ops)"
  by (auto simp add: frame_methods_eq exploratory_ops_def)

section \<open>Plot kinds\<close>

text \<open>
  Claim C3: for every \<^verbatim>\<open>plot\<close> call in the source, the \<^verbatim>\<open>kind\<close> argument, when given, is
  one of line, bar, barh, scatter, hexbin, pie, area, kde, density and hist, and each of
  the ten is the kind of at least one call.
\<close>

theorem kinds_drawn_from_set:
  "(\<forall>kw \<in> set source_plots. kind_in_set kw) \<and>
   (\<forall>k \<in> set plot_kinds. \<exists>kw \<in> set source_plots. map_of kw ''kind'' = Some (Str k))"
  by (simp add: source_plots_eq plot_links_def chain1_def chain2_def kind_in_set_def
      plot_kinds_def)

theorem kinds_drawn_from_set_witness:
  "map_of (source_plots ! 3) ''kind'' = Some (Str ''barh'') \<and> kind_in_set (source_plots ! 3) \<and>
   (\<exists>kw. kw \<in> set source_plots \<and> map_of kw ''kind'' = Some (Str ''hexbin''))"
proof -
  have m: "source_plots ! 3 \<in> set source_plots"
    by (simp add: source_plots_eq plot_links_def chain1_def)
  have v: "map_of (source_plots ! 3) ''kind'' = Some (Str ''barh'')"
    by (simp add: source_plots_eq plot_links_def chain1_def)
  have h: "''hexbin'' \<in> set plot_kinds"
    by (simp add: plot_kinds_def)
  from kinds_drawn_from_set m v h show ?thesis by blast
qed

section \<open>No error handling\<close>

text \<open>
  Claim C7: the source contains no error handling. No statement of any cell of either
  notebook is a \<^verbatim>\<open>try\<close>/\<^verbatim>\<open>except\<close>, an \<^verbatim>\<open>if\<close> on a result, an \<^verbatim>\<open>assert\<close> or a
  \<^verbatim>\<open>raise\<close>: the cells are sequences of imports, assignments and expression statements,
  so a call that fails ends its cell.
\<close>

theorem no_error_handling:
  "\<forall>nb \<in> set source_notebooks. \<forall>c \<in> set nb. \<forall>s \<in> set c. \<not> handles_failure s"
  by (simp add: source_notebooks_def cell_defs)

theorem no_error_handling_witness:
  "length (concat (concat source_notebooks)) = 45 \<and>
   \<not> handles_failure (ExprStmt (method_chain (Name ''k'') chain1))"
proof -
  have n: "plotter_notebook \<in> set source_notebooks"
    by (simp add: source_notebooks_def)
  have c: "plot_cell1 \<in> set plotter_notebook"
    by (simp add: plotter_notebook_def)
  have s: "ExprStmt (method_chain (Name ''k'') chain1) \<in> set plot_cell1"
    by (simp add: plot_cell1_def)
  have l: "length (concat (concat source_notebooks)) = 45"
    by (simp add: source_notebooks_def cell_defs)
  from no_error_handling n c s l show ?thesis by blast
qed

section \<open>Two plot calls on one cell\<close>

lemma session_chain_0: "session_chain 0 = chain1"
  by (simp add: session_chain_def source_sessions_eq)

lemma holds_kwargs_conflict:
  assumes "(k, v) \<in> set kw1" and "(k, v') \<in> set kw2" and "v \<noteq> v'"
  shows "\<not> (holds_kwargs st L kw1 \<and> holds_kwargs st L kw2)"
proof
  assume "holds_kwargs st L kw1 \<and> holds_kwargs st L kw2"
  then obtain e where e: "st L = Some e"
    and h1: "\<forall>p \<in> set kw1. e (fst p) = Some (snd p)"
    and h2: "\<forall>p \<in> set kw2. e (fst p) = Some (snd p)"
    by (auto simp: holds_kwargs_def)
  from h1 assms(1) have "e k = Some v" by force
  moreover from h2 assms(2) have "e k = Some v'" by force
  ultimately show False using assms(3) by simp
qed

lemma plots_on_A:
  "plots_on ''A'' chain1 = [snd (snd (chain1 ! 1)), snd (snd (chain1 ! 2))]"
  by (simp add: plots_on_def plot_links_def chain1_def on_value_def cell_label_def)

lemma plots_on_H:
  "plots_on ''H'' chain1 = [snd (snd (chain1 ! 15)), snd (snd (chain1 ! 16))]"
  by (simp add: plots_on_def plot_links_def chain1_def on_value_def cell_label_def)

text \<open>
  Claim C10: within the first chained session, two distinct \<^verbatim>\<open>plot\<close> calls target the
  cell \<open>A\<close> (a line plot, then a stacked bar plot) and two target the cell \<open>H\<close> (two kde
  plots, written \<^verbatim>\<open>on='H^'\<close> and \<^verbatim>\<open>on='H'\<close>). The two calls of each pair pass different
  values for one argument name (\<^verbatim>\<open>kind\<close> for \<open>A\<close>, \<^verbatim>\<open>by\<close> for \<open>H\<close>), so no store
  keyed by cell label alone holds the arguments of both calls at once.
\<close>

theorem two_calls_one_label:
  "map (\<lambda>kw. map_of kw ''kind'') (plots_on ''A'' (session_chain 0))
     = [Some (Str ''line''), Some (Str ''bar'')] \<and>
   map_of (plots_on ''A'' (session_chain 0) ! 1) ''stacked'' = Some (BoolLit True) \<and>
   map (\<lambda>kw. map_of kw ''kind'') (plots_on ''H'' (session_chain 0))
     = [Some (Str ''kde''), Some (Str ''kde'')] \<and>
   map on_value (plots_on ''H'' (session_chain 0)) = [Some ''H^'', Some ''H''] \<and>
   (\<forall>st. \<not> (holds_kwargs st ''A'' (plots_on ''A'' (session_chain 0) ! 0) \<and>
             holds_kwargs st ''A'' (plots_on ''A'' (session_chain 0) ! 1))) \<and>
   (\<forall>st. \<not> (holds_kwargs st ''H'' (plots_on ''H'' (session_chain 0) ! 0) \<and>
             holds_kwargs st ''H'' (plots_on ''H'' (session_chain 0) ! 1)))"
proof (intro conjI allI)
  show "map (\<lambda>kw. map_of kw ''kind'') (plots_on ''A'' (session_chain 0))
          = [Some (Str ''line''), Some (Str ''bar'')]"
    by (simp add: session_chain_0 plots_on_A) (simp add: chain1_def)
  show "map_of (plots_on ''A'' (session_chain 0) ! 1) ''stacked'' = Some (BoolLit True)"
    by (simp add: session_chain_0 plots_on_A) (simp add: chain1_def)
  show "map (\<lambda>kw. map_of kw ''kind'') (plots_on ''H'' (session_chain 0))
          = [Some (Str ''kde''), Some (Str ''kde'')]"
    by (simp add: session_chain_0 plots_on_H) (simp add: chain1_def)
  show "map on_value (plots_on ''H'' (session_chain 0)) = [Some ''H^'', Some ''H'']"
    by (simp add: session_chain_0 plots_on_H) (simp add: chain1_def on_value_def)
next
  fix st :: kwargs_store
  have a: "(''kind'', Str ''line'') \<in> set (plots_on ''A'' (session_chain 0) ! 0)"
    by (simp add: session_chain_0 plots_on_A) (simp add: chain1_def)
  have b: "(''kind'', Str ''bar'') \<in> set (plots_on ''A'' (session_chain 0) ! 1)"
    by (simp add: session_chain_0 plots_on_A) (simp add: chain1_def)
  show "\<not> (holds_kwargs st ''A'' (plots_on ''A'' (session_chain 0) ! 0) \<and>
            holds_kwargs st ''A'' (plots_on ''A'' (session_chain 0) ! 1))"
    by (rule holds_kwargs_conflict [OF a b]) simp
next
  fix st :: kwargs_store
  have a: "(''by'', Str ''day'') \<in> set (plots_on ''H'' (session_chain 0) ! 0)"
    by (simp add: session_chain_0 plots_on_H) (simp add: chain1_def)
  have b: "(''by'', Str ''sex'') \<in> set (plots_on ''H'' (session_chain 0) ! 1)"
    by (simp add: session_chain_0 plots_on_H) (simp add: chain1_def)
  show "\<not> (holds_kwargs st ''H'' (plots_on ''H'' (session_chain 0) ! 0) \<and>
            holds_kwargs st ''H'' (plots_on ''H'' (session_chain 0) ! 1))"
    by (rule holds_kwargs_conflict [OF a b]) simp
qed

theorem two_calls_one_label_witness:
  "holds_kwargs [''A'' \<mapsto> map_of (plots_on ''A'' (session_chain 0) ! 1)] ''A''
     (plots_on ''A'' (session_chain 0) ! 1) \<and>
   \<not> holds_kwargs [''A'' \<mapsto> map_of (plots_on ''A'' (session_chain 0) ! 1)] ''A''
     (plots_on ''A'' (session_chain 0) ! 0)"
proof -
  have h: "holds_kwargs [''A'' \<mapsto> map_of (plots_on ''A'' (session_chain 0) ! 1)] ''A''
     (plots_on ''A'' (session_chain 0) ! 1)"
    by (simp add: session_chain_0 plots_on_A holds_kwargs_def) (simp add: chain1_def)
  from two_calls_one_label h show ?thesis by blast
qed

section \<open>Running a chain on the modelled Plotter\<close>

lemma run_append:
  "run p (xs @ ys) = (case run p xs of None \<Rightarrow> None | Some q \<Rightarrow> run q ys)"
  by (induction xs arbitrary: p) (auto split: option.splits)

lemma step_cases:
  assumes "step p (m, a, kw) = Some q"
  obtains (data) d where "m = ''data''" "a = [d]" "q = data p d"
  | (plot) s where "m = ''plot''" "on_value kw = Some s" "names_cell (layout p) s"
      "q = plot p (cell_label s) kw"
  | (finalize) "m = ''finalize''" "q = finalize p kw"
  using assms by (auto split: if_splits list.splits option.splits)

lemma data_args_Nil: "data_args [] = []"
  by (simp add: data_args_def)

lemma data_args_Cons:
  "data_args ((m, a, kw) # ls) =
     (if m = ''data'' then (case a of [d] \<Rightarrow> [d] | _ \<Rightarrow> []) else []) @ data_args ls"
  by (simp add: data_args_def)

lemma plot_links_Nil: "plot_links [] = []"
  by (simp add: plot_links_def)

lemma plot_links_Cons:
  "plot_links ((m, a, kw) # ls) = (if m = ''plot'' then [kw] else []) @ plot_links ls"
  by (simp add: plot_links_def)


text \<open>The active dataset after a chain is the last one selected, if any was.\<close>

lemma run_active:
  "run p ls = Some q \<Longrightarrow>
     active q = (case last_data ls of None \<Rightarrow> active p | Some d \<Rightarrow> Some d)"
proof (induction ls arbitrary: p)
  case Nil
  then show ?case by (simp add: last_data_def data_args_Nil)
next
  case (Cons c cs)
  obtain m a kw where c: "c = (m, a, kw)" by (cases c) auto
  from Cons.prems obtain r where r: "step p (m, a, kw) = Some r" and rest: "run r cs = Some q"
    by (auto simp: c split: option.splits)
  note ih = Cons.IH [OF rest]
  from r show ?case
  proof (cases rule: step_cases)
    case (data d)
    then show ?thesis using ih
      by (simp add: c last_data_def data_args_Cons data_def split: if_splits)
  next
    case (plot s)
    then show ?thesis using ih
      by (simp add: c last_data_def data_args_Cons plot_def)
  next
    case finalize
    then show ?thesis using ih
      by (simp add: c last_data_def data_args_Cons finalize_def)
  qed
qed

text \<open>A chain only adds to the figure: one entry per plot call, after those already there.\<close>

lemma run_fig:
  "run p ls = Some q \<Longrightarrow>
     \<exists>ext. fig q = fig p @ ext \<and> map (\<lambda>e. snd (snd e)) ext = plot_links ls"
proof (induction ls arbitrary: p)
  case Nil
  then show ?case by (simp add: plot_links_Nil)
next
  case (Cons c cs)
  obtain m a kw where c: "c = (m, a, kw)" by (cases c) auto
  from Cons.prems obtain r where r: "step p (m, a, kw) = Some r" and rest: "run r cs = Some q"
    by (auto simp: c split: option.splits)
  from Cons.IH [OF rest] obtain ext where
    ext: "fig q = fig r @ ext" "map (\<lambda>e. snd (snd e)) ext = plot_links cs"
    by blast
  from r show ?case
  proof (cases rule: step_cases)
    case (data d)
    then show ?thesis using ext by (simp add: c plot_links_Cons data_def)
  next
    case (plot s)
    then show ?thesis using ext by (simp add: c plot_links_Cons plot_def)
  next
    case finalize
    then show ?thesis using ext by (simp add: c plot_links_Cons finalize_def)
  qed
qed

lemma run_fig_length:
  "run p ls = Some q \<Longrightarrow> length (fig q) = length (fig p) + length (plot_links ls)"
  by (drule run_fig) (auto dest: arg_cong [where f = length])

lemma run_fig_nth:
  "run p ls = Some q \<Longrightarrow> i < length (fig p) \<Longrightarrow> fig q ! i = fig p ! i"
  by (drule run_fig) (auto simp: nth_append)

text \<open>
  The plot call that follows the links \<open>pre\<close> is drawn from the dataset of the last
  \<^verbatim>\<open>data\<close> call of \<open>pre\<close>.
\<close>

lemma run_plot_dataset:
  assumes "run p (pre @ (''plot'', a, kw) # post) = Some q"
  shows "\<exists>s. on_value kw = Some s \<and>
           fig q ! (length (fig p) + length (plot_links pre)) =
             (cell_label s, (case last_data pre of None \<Rightarrow> active p | Some d \<Rightarrow> Some d), kw)"
proof -
  from assms obtain q1 where q1: "run p pre = Some q1"
    and r1: "run q1 ((''plot'', a, kw) # post) = Some q"
    by (auto simp: run_append split: option.splits)
  from r1 obtain q2 where q2: "step q1 (''plot'', a, kw) = Some q2" and r2: "run q2 post = Some q"
    by (auto split: option.splits)
  from q2 obtain s where s: "on_value kw = Some s" and q2': "q2 = plot q1 (cell_label s) kw"
    by (cases rule: step_cases) auto
  have len: "length (fig q1) = length (fig p) + length (plot_links pre)"
    by (rule run_fig_length [OF q1])
  have "fig q2 ! length (fig q1) = (cell_label s, active q1, kw)"
    by (simp add: q2' plot_def)
  moreover have "length (fig q1) < length (fig q2)"
    by (simp add: q2' plot_def)
  ultimately have "fig q ! length (fig q1) = (cell_label s, active q1, kw)"
    using run_fig_nth [OF r2] by simp
  with s len run_active [OF q1] show ?thesis by simp
qed

text \<open>A chain that opens with a \<^verbatim>\<open>data\<close> call has one before each of its plot calls.\<close>

lemma data_first:
  assumes "ls = (''data'', [d], kw0) # rest" and "ls = pre @ (''plot'', a, kw) # post"
  shows "(\<exists>l \<in> set pre. fst l = ''data'') \<and> last_data pre \<noteq> None"
proof (cases pre)
  case Nil
  with assms show ?thesis by simp
next
  case (Cons x xs)
  with assms have "x = (''data'', [d], kw0)" by simp
  with Cons show ?thesis by (simp add: last_data_def data_args_Cons)
qed



section \<open>Datasets and plot calls\<close>

lemma chain1_runs: "\<exists>p. run (Plotter mosaic1 sz) chain1 = Some p"
  by (simp add: chain1_def Plotter_def data_def plot_def finalize_def on_value_def
      names_cell_def cell_label_def single_letter_label_def letters_def mosaic1_def)

lemma chain2_runs: "\<exists>p. run (Plotter mosaic2 sz) chain2 = Some p"
  by (simp add: chain2_def Plotter_def data_def plot_def finalize_def on_value_def
      names_cell_def cell_label_def single_letter_label_def letters_def mosaic2_def)

lemma source_session_runs:
  assumes "s \<in> set source_sessions"
  shows "\<exists>m sz d rest p. chain s = (''data'', [d], []) # rest \<and>
           run_session s = Some p \<and> run (Plotter m sz) (chain s) = Some p"
proof -
  from assms consider
      (first) "s = \<lparr>ctor_args = [Str mosaic1],
                   ctor_kwargs = [(''figsize'', TupleE [IntLit 12, IntLit 12])], chain = chain1\<rparr>"
    | (second) "s = \<lparr>ctor_args = [Str mosaic2],
                   ctor_kwargs = [(''figsize'', TupleE [IntLit 8, IntLit 8])], chain = chain2\<rparr>"
    by (auto simp: source_sessions_eq)
  then show ?thesis
  proof cases
    case first
    obtain p where p: "run (Plotter mosaic1 (TupleE [IntLit 12, IntLit 12])) chain1 = Some p"
      using chain1_runs by blast
    have "chain1 = (''data'', [Name ''fmri''], []) # tl chain1"
      by (simp add: chain1_def)
    with p first show ?thesis
      by (auto simp: run_session_def)
  next
    case second
    obtain p where p: "run (Plotter mosaic2 (TupleE [IntLit 8, IntLit 8])) chain2 = Some p"
      using chain2_runs by blast
    have "chain2 = (''data'', [Name ''fmri''], []) # tl chain2"
      by (simp add: chain2_def)
    with p second show ?thesis
      by (auto simp: run_session_def)
  qed
qed

text \<open>
  Claim C4: in every chained Plotter session of the source, no \<^verbatim>\<open>plot\<close> call comes before
  the first \<^verbatim>\<open>data\<close> call, and the dataset in effect for a \<^verbatim>\<open>plot\<close> call is the one
  given by the most recent \<^verbatim>\<open>data\<close> call before it. The first half is read off the
  chains; the second runs each chain on the Plotter as the specification describes it:
  the run succeeds, and the plot call that follows the links \<open>pre\<close> is drawn from
  \<open>last_data pre\<close>.
\<close>

theorem plots_follow_data:
  "\<forall>s \<in> set source_sessions.
     (\<forall>pre a kw post. chain s = pre @ (''plot'', a, kw) # post \<longrightarrow>
        (\<exists>l \<in> set pre. fst l = ''data'')) \<and>
     (\<exists>p. run_session s = Some p \<and>
        (\<forall>pre a kw post. chain s = pre @ (''plot'', a, kw) # post \<longrightarrow>
           (\<exists>d. last_data pre = Some d \<and>
                fst (snd (fig p ! length (plot_links pre))) = Some d)))"
proof
  fix s
  assume "s \<in> set source_sessions"
  then obtain m sz d rest p where
    first: "chain s = (''data'', [d], []) # rest" and
    rs: "run_session s = Some p" and
    r: "run (Plotter m sz) (chain s) = Some p"
    using source_session_runs by blast
  have before: "\<exists>l \<in> set pre. fst l = ''data''"
    if "chain s = pre @ (''plot'', a, kw) # post" for pre a kw post
    using data_first [OF first that] by blast
  have dataset: "\<exists>d. last_data pre = Some d \<and>
                   fst (snd (fig p ! length (plot_links pre))) = Some d"
    if split: "chain s = pre @ (''plot'', a, kw) # post" for pre a kw post
  proof -
    from data_first [OF first split] obtain d' where d': "last_data pre = Some d'"
      by auto
    from r split have "run (Plotter m sz) (pre @ (''plot'', a, kw) # post) = Some p"
      by simp
    from run_plot_dataset [OF this] d' show ?thesis
      by (auto simp: Plotter_def)
  qed
  from rs before dataset
  show "(\<forall>pre a kw post. chain s = pre @ (''plot'', a, kw) # post \<longrightarrow>
            (\<exists>l \<in> set pre. fst l = ''data'')) \<and>
        (\<exists>p. run_session s = Some p \<and>
           (\<forall>pre a kw post. chain s = pre @ (''plot'', a, kw) # post \<longrightarrow>
              (\<exists>d. last_data pre = Some d \<and>
                   fst (snd (fig p ! length (plot_links pre))) = Some d)))"
    by blast
qed

theorem plots_follow_data_witness:
  "last_data (take 4 (session_chain 0)) = Some (Name ''tips'') \<and>
   (\<exists>p. run_session (source_sessions ! 0) = Some p \<and>
        fst (snd (fig p ! 2)) = Some (Name ''tips''))"
proof -
  have s: "source_sessions ! 0 \<in> set source_sessions"
    by (simp add: source_sessions_eq)
  have c: "chain (source_sessions ! 0) = chain1"
    by (simp add: source_sessions_eq)
  have split: "chain1 = take 4 chain1 @ (''plot'', [], snd (snd (chain1 ! 4))) # drop 5 chain1"
    by (simp add: chain1_def)
  have d: "last_data (take 4 chain1) = Some (Name ''tips'')"
    by (simp add: chain1_def last_data_def data_args_def)
  have n: "length (plot_links (take 4 chain1)) = 2"
    by (simp add: chain1_def plot_links_def)
  from plots_follow_data s obtain p where
    p: "run_session (source_sessions ! 0) = Some p" and
    h: "\<forall>pre a kw post. chain (source_sessions ! 0) = pre @ (''plot'', a, kw) # post \<longrightarrow>
          (\<exists>d. last_data pre = Some d \<and>
               fst (snd (fig p ! length (plot_links pre))) = Some d)"
    by blast
  from h split c have "\<exists>d. last_data (take 4 chain1) = Some d \<and>
      fst (snd (fig p ! length (plot_links (take 4 chain1)))) = Some d"
    by metis
  with d n have "fst (snd (fig p ! 2)) = Some (Name ''tips'')"
    by simp
  with p d show ?thesis
    by (auto simp: session_chain_0)
qed

section \<open>The store of recorded keyword arguments\<close>






section \<open>The shape of the sessions and of the accessor calls\<close>

text \<open>
  Each session of the source is constructed from one positional argument, the mosaic
  string, and the one keyword \<^verbatim>\<open>figsize\<close>; its chain is made of \<^verbatim>\<open>data\<close>, \<^verbatim>\<open>plot\<close> and
  \<^verbatim>\<open>finalize\<close> calls and ends with \<^verbatim>\<open>finalize\<close>.
\<close>

lemma sessions_shape:
  "\<forall>s \<in> set source_sessions.
     (\<exists>m. ctor_args s = [Str m]) \<and> map fst (ctor_kwargs s) = [''figsize''] \<and>
     set (map fst (chain s)) = {''data'', ''plot'', ''finalize''} \<and>
     fst (last (chain s)) = ''finalize''"
  by (simp add: source_sessions_eq) (auto simp: chain1_def chain2_def)

text \<open>
  The arguments the source passes to \<^verbatim>\<open>select\<close>: a regular expression, a list of column
  names, and a tuple of the two.
\<close>

lemma select_arguments:
  "[fst (snd (snd c)). c \<leftarrow> frame_calls, fst (snd c) = ''select''] =
     [[Str ''spe|sex|^n|^bi''],
      [ListE [Str ''species'', Str ''n'']],
      [ListE [Str ''A'', Str ''B_X'']],
      [Str ''^B|C''],
      [TupleE [ListE [Str ''A'', Str ''B_X''], Str ''^B|C'']]]"
  by (simp add: frame_calls_def source_calls_def source_notebooks_def notebook_calls_def
      cell_defs method_chain_def chain1_def chain2_def frame_names_def)


end
